theory Spec2Isabelle
  imports Complex_Main "HOL-Library.Word" "HOL-Library.Monad_Syntax"
begin

section \<open>Data model\<close>

text \<open>
  The two source files are \<^verbatim>\<open>xtrack/headers/checks.h\<close> and
  \<^verbatim>\<open>xtrack/beam_elements/elements_src/combinedfunctiondipole.h\<close>.
  The source is read twice for its arithmetic. In the first reading a C \<^verbatim>\<open>double\<close> is a
  \<^typ>\<open>real\<close>: exact arithmetic (no rounding, no overflow, no NaN), with HOL's total
  division for \<open>a / 0\<close>; it carries the statements about which formulas the map evaluates
  and the statements over the reals. In the second reading, further below, a
  \<^verbatim>\<open>double\<close> is a binary64 value and every operation is rounded; it carries the
  statements that rounding or a non-finite value decides. An \<^verbatim>\<open>int64_t\<close> is a
  \<^typ>\<open>64 word\<close> read with \<^const>\<open>sint\<close>, an \<^verbatim>\<open>int8_t\<close> an \<^typ>\<open>8 word\<close>.
\<close>

text \<open>
  Modelled from the spec: the type \<^verbatim>\<open>ThickCombinedFunctionDipoleData\<close> and its
  accessors \<^verbatim>\<open>ThickCombinedFunctionDipoleData_get_length\<close>, \<^verbatim>\<open>_get_k1\<close>,
  \<^verbatim>\<open>_get_k0\<close>, \<^verbatim>\<open>_get_h\<close> are declared outside the two source files. The
  element is the tuple of its four scalar parameters; the accessors are the selectors.
\<close>

record ThickCombinedFunctionDipoleData =
  el_length :: real
  el_k1 :: real
  el_k0 :: real
  el_h :: real

text \<open>
  Modelled from the spec: the type \<^verbatim>\<open>LocalParticle\<close> is declared outside the two
  source files. One particle is the record of the fields the spec's data model names;
  \<^verbatim>\<open>LocalParticle_get_x(part)\<close> is the selector \<open>p_x part\<close>, and so on. The
  functions below are stated over the extensible record, so that every field a host has
  beyond these is covered by the \<open>more\<close> part.
\<close>

record LocalParticle =
  p_x :: real
  p_px :: real
  p_y :: real
  p_py :: real
  p_zeta :: real
  p_s :: real
  p_delta :: real
  p_ptau :: real
  p_beta0 :: real
  p_rvv :: real
  p_state :: "64 word"
  p_at_turn :: "64 word"

definition LocalParticle_set_x :: "'a LocalParticle_scheme \<Rightarrow> real \<Rightarrow> 'a LocalParticle_scheme" where
  \<comment> \<open>Modelled from the spec: the mutator \<^verbatim>\<open>LocalParticle_set_x\<close> is not in the source files; it sets \<open>x\<close>.\<close>
  "LocalParticle_set_x part v = part\<lparr>p_x := v\<rparr>"

definition LocalParticle_set_px :: "'a LocalParticle_scheme \<Rightarrow> real \<Rightarrow> 'a LocalParticle_scheme" where
  \<comment> \<open>Modelled from the spec: the mutator \<^verbatim>\<open>LocalParticle_set_px\<close> is not in the source files; it sets \<open>px\<close>.\<close>
  "LocalParticle_set_px part v = part\<lparr>p_px := v\<rparr>"

definition LocalParticle_set_y :: "'a LocalParticle_scheme \<Rightarrow> real \<Rightarrow> 'a LocalParticle_scheme" where
  \<comment> \<open>Modelled from the spec: the mutator \<^verbatim>\<open>LocalParticle_set_y\<close> is not in the source files; it sets \<open>y\<close>.\<close>
  "LocalParticle_set_y part v = part\<lparr>p_y := v\<rparr>"

definition LocalParticle_set_py :: "'a LocalParticle_scheme \<Rightarrow> real \<Rightarrow> 'a LocalParticle_scheme" where
  \<comment> \<open>Modelled from the spec: the mutator \<^verbatim>\<open>LocalParticle_set_py\<close> is not in the source files; it sets \<open>py\<close>.\<close>
  "LocalParticle_set_py part v = part\<lparr>p_py := v\<rparr>"

definition LocalParticle_add_to_zeta :: "'a LocalParticle_scheme \<Rightarrow> real \<Rightarrow> 'a LocalParticle_scheme" where
  \<comment> \<open>Modelled from the spec: the mutator \<^verbatim>\<open>LocalParticle_add_to_zeta\<close> is not in the source files; it increments \<open>zeta\<close> by the supplied value.\<close>
  "LocalParticle_add_to_zeta part v = part\<lparr>p_zeta := p_zeta part + v\<rparr>"

definition LocalParticle_add_to_s :: "'a LocalParticle_scheme \<Rightarrow> real \<Rightarrow> 'a LocalParticle_scheme" where
  \<comment> \<open>Modelled from the spec: the mutator \<^verbatim>\<open>LocalParticle_add_to_s\<close> is not in the source files; it increments \<open>s\<close> by the supplied value.\<close>
  "LocalParticle_add_to_s part v = part\<lparr>p_s := p_s part + v\<rparr>"

definition LocalParticle_kill_particle :: "'a LocalParticle_scheme \<Rightarrow> 64 word \<Rightarrow> 'a LocalParticle_scheme" where
  \<comment> \<open>Modelled from the spec: \<^verbatim>\<open>LocalParticle_kill_particle\<close> is not in the source files; it marks the particle dead with the kill-reason code, which the field \<open>state\<close> holds.\<close>
  "LocalParticle_kill_particle part kill_state = part\<lparr>p_state := kill_state\<rparr>"

section \<open>checks.h\<close>

text \<open>
  \<^verbatim>\<open>assert_tracking\<close> returns its \<^verbatim>\<open>int8_t\<close> result together with the particle as
  it leaves it. The helper \<^verbatim>\<open>LocalParticle_kill_particle\<close> it calls is not in the
  source files and is a parameter of the model.
\<close>

definition assert_tracking ::
  "('a LocalParticle_scheme \<Rightarrow> 64 word \<Rightarrow> 'a LocalParticle_scheme) \<Rightarrow>
   'a LocalParticle_scheme \<Rightarrow> 64 word \<Rightarrow> 8 word \<times> 'a LocalParticle_scheme" where
  "assert_tracking kill_particle part kill_state =
     (if sint (p_at_turn part) < 0 then (0, kill_particle part kill_state)
      else (1, part))"

section \<open>combinedfunctiondipole.h\<close>

definition POW2 :: "real \<Rightarrow> real" where
  "POW2 X = X * X"

definition NONZERO :: "real \<Rightarrow> bool" where
  "NONZERO X = (X < 0 \<or> X > 0)"

text \<open>
  The body of the per-particle block, one definition for each local variable in the order
  of the source. The locals \<^verbatim>\<open>length\<close>, \<^verbatim>\<open>k1_\<close>, \<^verbatim>\<open>k0_\<close>, \<^verbatim>\<open>h\<close> are
  \<open>el_length el\<close>, \<open>el_k1 el\<close>, \<open>el_k0 el\<close>, \<open>el_h el\<close>; \<^verbatim>\<open>beta0\<close>, \<^verbatim>\<open>x\<close>,
  \<^verbatim>\<open>y\<close>, \<^verbatim>\<open>px\<close>, \<^verbatim>\<open>py\<close> are the selectors of the particle. A name of the source
  that ends in an underscore is not an Isabelle name: \<^verbatim>\<open>x_\<close>, \<^verbatim>\<open>px_\<close>, \<^verbatim>\<open>y_\<close>,
  \<^verbatim>\<open>py_\<close>, \<^verbatim>\<open>z_\<close>, \<^verbatim>\<open>length_\<close> are \<open>x_new\<close>, \<open>px_new\<close>, \<open>y_new\<close>, \<open>py_new\<close>,
  \<open>z_new\<close>, \<open>length_path\<close>, and the single letters \<^verbatim>\<open>A\<close>, \<^verbatim>\<open>B\<close>, \<^verbatim>\<open>C\<close>,
  \<^verbatim>\<open>D\<close> are \<open>A_drv\<close>, \<open>B_drv\<close>, \<open>C_drv\<close>, \<open>D_drv\<close>.
\<close>

definition pt :: "'a LocalParticle_scheme \<Rightarrow> real" where
  "pt part = p_ptau part"

definition beti :: "'a LocalParticle_scheme \<Rightarrow> real" where
  "beti part = 1 / (p_rvv part * p_beta0 part)"

definition delta_plus_1 :: "'a LocalParticle_scheme \<Rightarrow> real" where
  "delta_plus_1 part = p_delta part + 1"

definition bet :: "'a LocalParticle_scheme \<Rightarrow> real" where
  "bet part = delta_plus_1 part / (beti part + pt part)"

definition k0 :: "ThickCombinedFunctionDipoleData \<Rightarrow> 'a LocalParticle_scheme \<Rightarrow> real" where
  "k0 el part = el_k0 el / delta_plus_1 part"

definition k1 :: "ThickCombinedFunctionDipoleData \<Rightarrow> 'a LocalParticle_scheme \<Rightarrow> real" where
  "k1 el part = el_k1 el / delta_plus_1 part"

definition Kx :: "ThickCombinedFunctionDipoleData \<Rightarrow> 'a LocalParticle_scheme \<Rightarrow> real" where
  "Kx el part = k0 el part * el_h el + k1 el part"

definition Ky :: "ThickCombinedFunctionDipoleData \<Rightarrow> 'a LocalParticle_scheme \<Rightarrow> real" where
  "Ky el part = - k1 el part"

definition Sx :: "ThickCombinedFunctionDipoleData \<Rightarrow> 'a LocalParticle_scheme \<Rightarrow> real" where
  "Sx el part =
     (if Kx el part > 0 then
        (let sqrt_Kx = sqrt (Kx el part) in sin (sqrt_Kx * el_length el) / sqrt_Kx)
      else if Kx el part < 0 then
        (let sqrt_Kx = sqrt (- Kx el part) in sinh (sqrt_Kx * el_length el) / sqrt_Kx)
      else el_length el)"

definition Cx :: "ThickCombinedFunctionDipoleData \<Rightarrow> 'a LocalParticle_scheme \<Rightarrow> real" where
  "Cx el part =
     (if Kx el part > 0 then
        (let sqrt_Kx = sqrt (Kx el part) in cos (sqrt_Kx * el_length el))
      else if Kx el part < 0 then
        (let sqrt_Kx = sqrt (- Kx el part) in cosh (sqrt_Kx * el_length el))
      else 1)"

definition Sy :: "ThickCombinedFunctionDipoleData \<Rightarrow> 'a LocalParticle_scheme \<Rightarrow> real" where
  "Sy el part =
     (if Ky el part > 0 then
        (let sqrt_Ky = sqrt (Ky el part) in sin (sqrt_Ky * el_length el) / sqrt_Ky)
      else if Ky el part < 0 then
        (let sqrt_Ky = sqrt (- Ky el part) in sinh (sqrt_Ky * el_length el) / sqrt_Ky)
      else el_length el)"

definition Cy :: "ThickCombinedFunctionDipoleData \<Rightarrow> 'a LocalParticle_scheme \<Rightarrow> real" where
  "Cy el part =
     (if Ky el part > 0 then
        (let sqrt_Ky = sqrt (Ky el part) in cos (sqrt_Ky * el_length el))
      else if Ky el part < 0 then
        (let sqrt_Ky = sqrt (- Ky el part) in cosh (sqrt_Ky * el_length el))
      else 1)"

definition xp :: "'a LocalParticle_scheme \<Rightarrow> real" where
  "xp part = p_px part / delta_plus_1 part"

definition yp :: "'a LocalParticle_scheme \<Rightarrow> real" where
  "yp part = p_py part / delta_plus_1 part"

definition A_drv :: "ThickCombinedFunctionDipoleData \<Rightarrow> 'a LocalParticle_scheme \<Rightarrow> real" where
  "A_drv el part = - Kx el part * p_x part - k0 el part + el_h el"

definition B_drv :: "'a LocalParticle_scheme \<Rightarrow> real" where
  "B_drv part = xp part"

definition C_drv :: "ThickCombinedFunctionDipoleData \<Rightarrow> 'a LocalParticle_scheme \<Rightarrow> real" where
  "C_drv el part = - Ky el part * p_y part"

definition D_drv :: "'a LocalParticle_scheme \<Rightarrow> real" where
  "D_drv part = yp part"

text \<open>The transverse map; \<^verbatim>\<open>x_\<close> is assigned twice, the second time in a branch on \<^verbatim>\<open>NONZERO(Kx)\<close>.\<close>

definition x_new :: "ThickCombinedFunctionDipoleData \<Rightarrow> 'a LocalParticle_scheme \<Rightarrow> real" where
  "x_new el part =
     (let x0 = p_x part * Cx el part + xp part * Sx el part in
      if NONZERO (Kx el part) then
        x0 + (k0 el part - el_h el) * (Cx el part - 1) / Kx el part
      else
        x0 - (k0 el part - el_h el) * 0.5 * POW2 (el_length el))"

definition y_new :: "ThickCombinedFunctionDipoleData \<Rightarrow> 'a LocalParticle_scheme \<Rightarrow> real" where
  "y_new el part = p_y part * Cy el part + yp part * Sy el part"

definition px_new :: "ThickCombinedFunctionDipoleData \<Rightarrow> 'a LocalParticle_scheme \<Rightarrow> real" where
  "px_new el part = (A_drv el part * Sx el part + B_drv part * Cx el part) * delta_plus_1 part"

definition py_new :: "ThickCombinedFunctionDipoleData \<Rightarrow> 'a LocalParticle_scheme \<Rightarrow> real" where
  "py_new el part = (C_drv el part * Sy el part + D_drv part * Cy el part) * delta_plus_1 part"

text \<open>The longitudinal map: \<^verbatim>\<open>length_\<close> after the branch on \<^verbatim>\<open>NONZERO(Kx)\<close>, then after the branch on \<^verbatim>\<open>NONZERO(Ky)\<close>.\<close>

definition length_path_x :: "ThickCombinedFunctionDipoleData \<Rightarrow> 'a LocalParticle_scheme \<Rightarrow> real" where
  "length_path_x el part =
     (let l0 = el_length el in
      if NONZERO (Kx el part) then
        (let l1 = l0 - (el_h el * ((Cx el part - 1) * xp part + Sx el part * A_drv el part
                          + el_length el * (k0 el part - el_h el))) / Kx el part
         in l1 + 0.5 * (
              - (POW2 (A_drv el part) * Cx el part * Sx el part) / (2 * Kx el part)
              + (POW2 (B_drv part) * Cx el part * Sx el part) / 2
              + (POW2 (A_drv el part) * el_length el) / (2 * Kx el part)
              + (POW2 (B_drv part) * el_length el) / 2
              - (A_drv el part * B_drv part * POW2 (Cx el part)) / Kx el part
              + (A_drv el part * B_drv part) / Kx el part))
      else
        (let l1 = l0 + el_h el * el_length el * (
                3 * el_length el * xp part
                + 6 * p_x part
                - (k0 el part - el_h el) * POW2 (el_length el)) / 6
         in l1 + 0.5 * (POW2 (B_drv part)) * el_length el))"

definition length_path :: "ThickCombinedFunctionDipoleData \<Rightarrow> 'a LocalParticle_scheme \<Rightarrow> real" where
  "length_path el part =
     (let l2 = length_path_x el part in
      if NONZERO (Ky el part) then
        l2 + 0.5 * (
            - (POW2 (C_drv el part) * Cy el part * Sy el part) / (2 * Ky el part)
            + (POW2 (D_drv part) * Cy el part * Sy el part) / 2
            + (POW2 (C_drv el part) * el_length el) / (2 * Ky el part)
            + (POW2 (D_drv part) * el_length el) / 2
            - (C_drv el part * D_drv part * POW2 (Cy el part)) / Ky el part
            + (C_drv el part * D_drv part) / Ky el part)
      else
        l2 + 0.5 * POW2 (D_drv part) * el_length el)"

definition z_new :: "ThickCombinedFunctionDipoleData \<Rightarrow> 'a LocalParticle_scheme \<Rightarrow> real" where
  "z_new el part = el_length el * beti part - length_path el part / bet part"

text \<open>
  The writes at the end of the block, in the order of the source. Every local was
  computed from the particle as it entered, so the arguments read \<open>part\<close>.
\<close>

definition ThickCombinedFunctionDipole_track_local_particle ::
  "ThickCombinedFunctionDipoleData \<Rightarrow> 'a LocalParticle_scheme \<Rightarrow> 'a LocalParticle_scheme" where
  "ThickCombinedFunctionDipole_track_local_particle el part =
     (let p1 = LocalParticle_set_x part (x_new el part);
          p2 = LocalParticle_set_px p1 (px_new el part);
          p3 = LocalParticle_set_y p2 (y_new el part);
          p4 = LocalParticle_set_py p3 (py_new el part);
          p5 = LocalParticle_add_to_zeta p4 (z_new el part * p_beta0 part)
      in LocalParticle_add_to_s p5 (el_length el))"

section \<open>The map with its divisions by \<open>Kx\<close> and \<open>Ky\<close> checked\<close>

text \<open>
  A second reading of the same source lines, for the claim about divisions by zero: every
  division whose divisor is \<^verbatim>\<open>Kx\<close>, \<^verbatim>\<open>2.0 * Kx\<close>, \<^verbatim>\<open>Ky\<close> or
  \<^verbatim>\<open>2.0 * Ky\<close> goes through \<open>kdiv\<close>, which has no value when the divisor is zero.
  Everything else is as in the definitions above.
\<close>

definition kdiv :: "real \<Rightarrow> real \<Rightarrow> real option" where
  "kdiv a K = (if K = 0 then None else Some (a / K))"

definition x_new_checked :: "ThickCombinedFunctionDipoleData \<Rightarrow> 'a LocalParticle_scheme \<Rightarrow> real option" where
  "x_new_checked el part =
     (let x0 = p_x part * Cx el part + xp part * Sx el part in
      if NONZERO (Kx el part) then
        do { q \<leftarrow> kdiv ((k0 el part - el_h el) * (Cx el part - 1)) (Kx el part);
             Some (x0 + q) }
      else
        Some (x0 - (k0 el part - el_h el) * 0.5 * POW2 (el_length el)))"

definition length_path_x_checked :: "ThickCombinedFunctionDipoleData \<Rightarrow> 'a LocalParticle_scheme \<Rightarrow> real option" where
  "length_path_x_checked el part =
     (let l0 = el_length el in
      if NONZERO (Kx el part) then
        do { c \<leftarrow> kdiv (el_h el * ((Cx el part - 1) * xp part + Sx el part * A_drv el part
                          + el_length el * (k0 el part - el_h el))) (Kx el part);
             let l1 = l0 - c;
             t1 \<leftarrow> kdiv (POW2 (A_drv el part) * Cx el part * Sx el part) (2 * Kx el part);
             t3 \<leftarrow> kdiv (POW2 (A_drv el part) * el_length el) (2 * Kx el part);
             t5 \<leftarrow> kdiv (A_drv el part * B_drv part * POW2 (Cx el part)) (Kx el part);
             t6 \<leftarrow> kdiv (A_drv el part * B_drv part) (Kx el part);
             Some (l1 + 0.5 * (
                - t1
                + (POW2 (B_drv part) * Cx el part * Sx el part) / 2
                + t3
                + (POW2 (B_drv part) * el_length el) / 2
                - t5
                + t6)) }
      else
        (let l1 = l0 + el_h el * el_length el * (
                3 * el_length el * xp part
                + 6 * p_x part
                - (k0 el part - el_h el) * POW2 (el_length el)) / 6
         in Some (l1 + 0.5 * (POW2 (B_drv part)) * el_length el)))"

definition length_path_checked :: "ThickCombinedFunctionDipoleData \<Rightarrow> 'a LocalParticle_scheme \<Rightarrow> real option" where
  "length_path_checked el part =
     do { l2 \<leftarrow> length_path_x_checked el part;
          if NONZERO (Ky el part) then
            do { t1 \<leftarrow> kdiv (POW2 (C_drv el part) * Cy el part * Sy el part) (2 * Ky el part);
                 t3 \<leftarrow> kdiv (POW2 (C_drv el part) * el_length el) (2 * Ky el part);
                 t5 \<leftarrow> kdiv (C_drv el part * D_drv part * POW2 (Cy el part)) (Ky el part);
                 t6 \<leftarrow> kdiv (C_drv el part * D_drv part) (Ky el part);
                 Some (l2 + 0.5 * (
                    - t1
                    + (POW2 (D_drv part) * Cy el part * Sy el part) / 2
                    + t3
                    + (POW2 (D_drv part) * el_length el) / 2
                    - t5
                    + t6)) }
          else
            Some (l2 + 0.5 * POW2 (D_drv part) * el_length el) }"

definition track_local_particle_checked ::
  "ThickCombinedFunctionDipoleData \<Rightarrow> 'a LocalParticle_scheme \<Rightarrow> 'a LocalParticle_scheme option" where
  "track_local_particle_checked el part =
     do { x_v \<leftarrow> x_new_checked el part;
          length_v \<leftarrow> length_path_checked el part;
          let z_v = el_length el * beti part - length_v / bet part;
          let p1 = LocalParticle_set_x part x_v;
          let p2 = LocalParticle_set_px p1 (px_new el part);
          let p3 = LocalParticle_set_y p2 (y_new el part);
          let p4 = LocalParticle_set_py p3 (py_new el part);
          let p5 = LocalParticle_add_to_zeta p4 (z_v * p_beta0 part);
          Some (LocalParticle_add_to_s p5 (el_length el)) }"

section \<open>The map in binary64 arithmetic\<close>

text \<open>
  A third reading of the same source lines, in the arithmetic the program runs in, for the
  statements whose truth depends on rounding or on non-finite values. A \<^verbatim>\<open>double\<close> is
  a finite value, an infinity or NaN. \<open>RN\<close> is IEEE 754 round-to-nearest, ties to even, onto
  binary64: 53 significant bits, gradual underflow below \<open>2\<^sup>-\<^sup>1\<^sup>0\<^sup>2\<^sup>2\<close> (spacing
  \<open>2\<^sup>-\<^sup>1\<^sup>0\<^sup>7\<^sup>4\<close>), overflow to an infinity above \<open>DBL_MAX\<close>. Every operation of the source is
  rounded once, on its own (no fused multiply-add), and the special cases are those of
  IEEE 754. Not represented: the sign of a zero (a nonzero finite value divided by zero
  gets the sign of the dividend, as for \<open>+0\<close>). The library functions \<^verbatim>\<open>sqrt\<close>,
  \<^verbatim>\<open>sin\<close>, \<^verbatim>\<open>cos\<close>, \<^verbatim>\<open>sinh\<close>, \<^verbatim>\<open>cosh\<close> are taken as correctly rounded; the
  theorems on this reading evaluate none of them.
\<close>

datatype dbl = Finite real | PlusInf | MinusInf | NaN

definition rhe :: "real \<Rightarrow> int" where
  "rhe x = (let f = \<lfloor>x\<rfloor>; d = x - of_int f in
            if d < 1/2 then f else if 1/2 < d then f + 1 else if even f then f else f + 1)"

definition DBL_MAX :: real where
  "DBL_MAX = (2 ^ 53 - 1) * 2 ^ 971"

definition ulp_exp :: "real \<Rightarrow> int" where
  "ulp_exp x = max (\<lfloor>log 2 \<bar>x\<bar>\<rfloor> - 52) (- 1074)"

definition RN :: "real \<Rightarrow> dbl" where
  "RN x = (if x = 0 then Finite 0 else
            let e = ulp_exp x;
                r = of_int (rhe (x / 2 powr (of_int e))) * 2 powr (of_int e)
            in if DBL_MAX < \<bar>r\<bar> then (if 0 < x then PlusInf else MinusInf) else Finite r)"

fun d_neg :: "dbl \<Rightarrow> dbl" where
  "d_neg (Finite a) = Finite (- a)"
| "d_neg PlusInf = MinusInf"
| "d_neg MinusInf = PlusInf"
| "d_neg NaN = NaN"

fun d_add :: "dbl \<Rightarrow> dbl \<Rightarrow> dbl" where
  "d_add NaN _ = NaN"
| "d_add _ NaN = NaN"
| "d_add (Finite a) (Finite b) = RN (a + b)"
| "d_add PlusInf MinusInf = NaN"
| "d_add MinusInf PlusInf = NaN"
| "d_add PlusInf _ = PlusInf"
| "d_add _ PlusInf = PlusInf"
| "d_add MinusInf _ = MinusInf"
| "d_add _ MinusInf = MinusInf"

definition d_sub :: "dbl \<Rightarrow> dbl \<Rightarrow> dbl" where
  "d_sub a b = d_add a (d_neg b)"

fun d_mul :: "dbl \<Rightarrow> dbl \<Rightarrow> dbl" where
  "d_mul NaN _ = NaN"
| "d_mul _ NaN = NaN"
| "d_mul (Finite a) (Finite b) = RN (a * b)"
| "d_mul (Finite a) PlusInf = (if a = 0 then NaN else if 0 < a then PlusInf else MinusInf)"
| "d_mul (Finite a) MinusInf = (if a = 0 then NaN else if 0 < a then MinusInf else PlusInf)"
| "d_mul PlusInf (Finite b) = (if b = 0 then NaN else if 0 < b then PlusInf else MinusInf)"
| "d_mul MinusInf (Finite b) = (if b = 0 then NaN else if 0 < b then MinusInf else PlusInf)"
| "d_mul PlusInf PlusInf = PlusInf"
| "d_mul PlusInf MinusInf = MinusInf"
| "d_mul MinusInf PlusInf = MinusInf"
| "d_mul MinusInf MinusInf = PlusInf"

fun d_div :: "dbl \<Rightarrow> dbl \<Rightarrow> dbl" where
  "d_div NaN _ = NaN"
| "d_div _ NaN = NaN"
| "d_div (Finite a) (Finite b) =
     (if b = 0 then (if a = 0 then NaN else if 0 < a then PlusInf else MinusInf)
      else RN (a / b))"
| "d_div (Finite a) PlusInf = Finite 0"
| "d_div (Finite a) MinusInf = Finite 0"
| "d_div PlusInf (Finite b) = (if 0 \<le> b then PlusInf else MinusInf)"
| "d_div MinusInf (Finite b) = (if 0 \<le> b then MinusInf else PlusInf)"
| "d_div PlusInf PlusInf = NaN"
| "d_div PlusInf MinusInf = NaN"
| "d_div MinusInf PlusInf = NaN"
| "d_div MinusInf MinusInf = NaN"

fun d_lt :: "dbl \<Rightarrow> dbl \<Rightarrow> bool" where
  "d_lt NaN _ = False"
| "d_lt _ NaN = False"
| "d_lt (Finite a) (Finite b) = (a < b)"
| "d_lt (Finite a) PlusInf = True"
| "d_lt (Finite a) MinusInf = False"
| "d_lt PlusInf _ = False"
| "d_lt MinusInf MinusInf = False"
| "d_lt MinusInf _ = True"

fun d_sqrt :: "dbl \<Rightarrow> dbl" where
  "d_sqrt (Finite a) = (if a < 0 then NaN else RN (sqrt a))"
| "d_sqrt PlusInf = PlusInf"
| "d_sqrt MinusInf = NaN"
| "d_sqrt NaN = NaN"

fun d_sin :: "dbl \<Rightarrow> dbl" where
  "d_sin (Finite a) = RN (sin a)"
| "d_sin _ = NaN"

fun d_cos :: "dbl \<Rightarrow> dbl" where
  "d_cos (Finite a) = RN (cos a)"
| "d_cos _ = NaN"

fun d_sinh :: "dbl \<Rightarrow> dbl" where
  "d_sinh (Finite a) = RN (sinh a)"
| "d_sinh PlusInf = PlusInf"
| "d_sinh MinusInf = MinusInf"
| "d_sinh NaN = NaN"

fun d_cosh :: "dbl \<Rightarrow> dbl" where
  "d_cosh (Finite a) = RN (cosh a)"
| "d_cosh PlusInf = PlusInf"
| "d_cosh MinusInf = PlusInf"
| "d_cosh NaN = NaN"

text \<open>
  The element, the particle and the body of the per-particle block over \<open>dbl\<close>, one
  definition for each local of the source as above, with the operations in the order C
  evaluates them: \<^verbatim>\<open>a * b * c\<close> is \<open>(a * b) * c\<close>, \<^verbatim>\<open>a + b - c\<close> is \<open>(a + b) - c\<close>, and
  \<^verbatim>\<open>- (a) / b\<close> is \<open>(- a) / b\<close>. The six writes are those of the mutators modelled from the
  spec above.
\<close>

record ThickCombinedFunctionDipoleData_d =
  dl_length :: dbl
  dl_k1 :: dbl
  dl_k0 :: dbl
  dl_h :: dbl

record LocalParticle_d =
  d_x :: dbl
  d_px :: dbl
  d_y :: dbl
  d_py :: dbl
  d_zeta :: dbl
  d_s :: dbl
  d_delta :: dbl
  d_ptau :: dbl
  d_beta0 :: dbl
  d_rvv :: dbl
  d_state :: "64 word"
  d_at_turn :: "64 word"

definition POW2_d :: "dbl \<Rightarrow> dbl" where
  "POW2_d X = d_mul X X"

definition NONZERO_d :: "dbl \<Rightarrow> bool" where
  "NONZERO_d X = (d_lt X (Finite 0) \<or> d_lt (Finite 0) X)"

definition pt_d :: "'a LocalParticle_d_scheme \<Rightarrow> dbl" where
  "pt_d part = d_ptau part"

definition beti_d :: "'a LocalParticle_d_scheme \<Rightarrow> dbl" where
  "beti_d part = d_div (Finite 1) (d_mul (d_rvv part) (d_beta0 part))"

definition delta_plus_1_d :: "'a LocalParticle_d_scheme \<Rightarrow> dbl" where
  "delta_plus_1_d part = d_add (d_delta part) (Finite 1)"

definition bet_d :: "'a LocalParticle_d_scheme \<Rightarrow> dbl" where
  "bet_d part = d_div (delta_plus_1_d part) (d_add (beti_d part) (pt_d part))"

definition k0_d :: "ThickCombinedFunctionDipoleData_d \<Rightarrow> 'a LocalParticle_d_scheme \<Rightarrow> dbl" where
  "k0_d el part = d_div (dl_k0 el) (delta_plus_1_d part)"

definition k1_d :: "ThickCombinedFunctionDipoleData_d \<Rightarrow> 'a LocalParticle_d_scheme \<Rightarrow> dbl" where
  "k1_d el part = d_div (dl_k1 el) (delta_plus_1_d part)"

definition Kx_d :: "ThickCombinedFunctionDipoleData_d \<Rightarrow> 'a LocalParticle_d_scheme \<Rightarrow> dbl" where
  "Kx_d el part = d_add (d_mul (k0_d el part) (dl_h el)) (k1_d el part)"

definition Ky_d :: "ThickCombinedFunctionDipoleData_d \<Rightarrow> 'a LocalParticle_d_scheme \<Rightarrow> dbl" where
  "Ky_d el part = d_neg (k1_d el part)"

definition Sx_d :: "ThickCombinedFunctionDipoleData_d \<Rightarrow> 'a LocalParticle_d_scheme \<Rightarrow> dbl" where
  "Sx_d el part =
     (if d_lt (Finite 0) (Kx_d el part) then
        (let sqrt_Kx = d_sqrt (Kx_d el part)
         in d_div (d_sin (d_mul sqrt_Kx (dl_length el))) sqrt_Kx)
      else if d_lt (Kx_d el part) (Finite 0) then
        (let sqrt_Kx = d_sqrt (d_neg (Kx_d el part))
         in d_div (d_sinh (d_mul sqrt_Kx (dl_length el))) sqrt_Kx)
      else dl_length el)"

definition Cx_d :: "ThickCombinedFunctionDipoleData_d \<Rightarrow> 'a LocalParticle_d_scheme \<Rightarrow> dbl" where
  "Cx_d el part =
     (if d_lt (Finite 0) (Kx_d el part) then
        (let sqrt_Kx = d_sqrt (Kx_d el part) in d_cos (d_mul sqrt_Kx (dl_length el)))
      else if d_lt (Kx_d el part) (Finite 0) then
        (let sqrt_Kx = d_sqrt (d_neg (Kx_d el part)) in d_cosh (d_mul sqrt_Kx (dl_length el)))
      else Finite 1)"

definition Sy_d :: "ThickCombinedFunctionDipoleData_d \<Rightarrow> 'a LocalParticle_d_scheme \<Rightarrow> dbl" where
  "Sy_d el part =
     (if d_lt (Finite 0) (Ky_d el part) then
        (let sqrt_Ky = d_sqrt (Ky_d el part)
         in d_div (d_sin (d_mul sqrt_Ky (dl_length el))) sqrt_Ky)
      else if d_lt (Ky_d el part) (Finite 0) then
        (let sqrt_Ky = d_sqrt (d_neg (Ky_d el part))
         in d_div (d_sinh (d_mul sqrt_Ky (dl_length el))) sqrt_Ky)
      else dl_length el)"

definition Cy_d :: "ThickCombinedFunctionDipoleData_d \<Rightarrow> 'a LocalParticle_d_scheme \<Rightarrow> dbl" where
  "Cy_d el part =
     (if d_lt (Finite 0) (Ky_d el part) then
        (let sqrt_Ky = d_sqrt (Ky_d el part) in d_cos (d_mul sqrt_Ky (dl_length el)))
      else if d_lt (Ky_d el part) (Finite 0) then
        (let sqrt_Ky = d_sqrt (d_neg (Ky_d el part)) in d_cosh (d_mul sqrt_Ky (dl_length el)))
      else Finite 1)"

definition xp_d :: "'a LocalParticle_d_scheme \<Rightarrow> dbl" where
  "xp_d part = d_div (d_px part) (delta_plus_1_d part)"

definition yp_d :: "'a LocalParticle_d_scheme \<Rightarrow> dbl" where
  "yp_d part = d_div (d_py part) (delta_plus_1_d part)"

definition A_drv_d :: "ThickCombinedFunctionDipoleData_d \<Rightarrow> 'a LocalParticle_d_scheme \<Rightarrow> dbl" where
  "A_drv_d el part =
     d_add (d_sub (d_mul (d_neg (Kx_d el part)) (d_x part)) (k0_d el part)) (dl_h el)"

definition B_drv_d :: "'a LocalParticle_d_scheme \<Rightarrow> dbl" where
  "B_drv_d part = xp_d part"

definition C_drv_d :: "ThickCombinedFunctionDipoleData_d \<Rightarrow> 'a LocalParticle_d_scheme \<Rightarrow> dbl" where
  "C_drv_d el part = d_mul (d_neg (Ky_d el part)) (d_y part)"

definition D_drv_d :: "'a LocalParticle_d_scheme \<Rightarrow> dbl" where
  "D_drv_d part = yp_d part"

definition x_new_d :: "ThickCombinedFunctionDipoleData_d \<Rightarrow> 'a LocalParticle_d_scheme \<Rightarrow> dbl" where
  "x_new_d el part =
     (let x0 = d_add (d_mul (d_x part) (Cx_d el part)) (d_mul (xp_d part) (Sx_d el part)) in
      if NONZERO_d (Kx_d el part) then
        d_add x0 (d_div (d_mul (d_sub (k0_d el part) (dl_h el))
                               (d_sub (Cx_d el part) (Finite 1)))
                        (Kx_d el part))
      else
        d_sub x0 (d_mul (d_mul (d_sub (k0_d el part) (dl_h el)) (Finite (1/2)))
                        (POW2_d (dl_length el))))"

definition y_new_d :: "ThickCombinedFunctionDipoleData_d \<Rightarrow> 'a LocalParticle_d_scheme \<Rightarrow> dbl" where
  "y_new_d el part = d_add (d_mul (d_y part) (Cy_d el part)) (d_mul (yp_d part) (Sy_d el part))"

definition px_new_d :: "ThickCombinedFunctionDipoleData_d \<Rightarrow> 'a LocalParticle_d_scheme \<Rightarrow> dbl" where
  "px_new_d el part =
     d_mul (d_add (d_mul (A_drv_d el part) (Sx_d el part)) (d_mul (B_drv_d part) (Cx_d el part)))
           (delta_plus_1_d part)"

definition py_new_d :: "ThickCombinedFunctionDipoleData_d \<Rightarrow> 'a LocalParticle_d_scheme \<Rightarrow> dbl" where
  "py_new_d el part =
     d_mul (d_add (d_mul (C_drv_d el part) (Sy_d el part)) (d_mul (D_drv_d part) (Cy_d el part)))
           (delta_plus_1_d part)"

definition length_path_x_d :: "ThickCombinedFunctionDipoleData_d \<Rightarrow> 'a LocalParticle_d_scheme \<Rightarrow> dbl" where
  "length_path_x_d el part =
     (let l0 = dl_length el in
      if NONZERO_d (Kx_d el part) then
        (let l1 = d_sub l0
                    (d_div (d_mul (dl_h el)
                              (d_add (d_add (d_mul (d_sub (Cx_d el part) (Finite 1)) (xp_d part))
                                            (d_mul (Sx_d el part) (A_drv_d el part)))
                                     (d_mul (dl_length el) (d_sub (k0_d el part) (dl_h el)))))
                           (Kx_d el part));
             t1 = d_div (d_neg (d_mul (d_mul (POW2_d (A_drv_d el part)) (Cx_d el part)) (Sx_d el part)))
                        (d_mul (Finite 2) (Kx_d el part));
             t2 = d_div (d_mul (d_mul (POW2_d (B_drv_d part)) (Cx_d el part)) (Sx_d el part))
                        (Finite 2);
             t3 = d_div (d_mul (POW2_d (A_drv_d el part)) (dl_length el))
                        (d_mul (Finite 2) (Kx_d el part));
             t4 = d_div (d_mul (POW2_d (B_drv_d part)) (dl_length el)) (Finite 2);
             t5 = d_div (d_mul (d_mul (A_drv_d el part) (B_drv_d part)) (POW2_d (Cx_d el part)))
                        (Kx_d el part);
             t6 = d_div (d_mul (A_drv_d el part) (B_drv_d part)) (Kx_d el part)
         in d_add l1 (d_mul (Finite (1/2))
                        (d_add (d_sub (d_add (d_add (d_add t1 t2) t3) t4) t5) t6)))
      else
        (let l1 = d_add l0
                    (d_div (d_mul (d_mul (dl_h el) (dl_length el))
                              (d_sub (d_add (d_mul (d_mul (Finite 3) (dl_length el)) (xp_d part))
                                            (d_mul (Finite 6) (d_x part)))
                                     (d_mul (d_sub (k0_d el part) (dl_h el)) (POW2_d (dl_length el)))))
                           (Finite 6))
         in d_add l1 (d_mul (d_mul (Finite (1/2)) (POW2_d (B_drv_d part))) (dl_length el))))"

definition length_path_d :: "ThickCombinedFunctionDipoleData_d \<Rightarrow> 'a LocalParticle_d_scheme \<Rightarrow> dbl" where
  "length_path_d el part =
     (let l2 = length_path_x_d el part in
      if NONZERO_d (Ky_d el part) then
        (let t1 = d_div (d_neg (d_mul (d_mul (POW2_d (C_drv_d el part)) (Cy_d el part)) (Sy_d el part)))
                        (d_mul (Finite 2) (Ky_d el part));
             t2 = d_div (d_mul (d_mul (POW2_d (D_drv_d part)) (Cy_d el part)) (Sy_d el part))
                        (Finite 2);
             t3 = d_div (d_mul (POW2_d (C_drv_d el part)) (dl_length el))
                        (d_mul (Finite 2) (Ky_d el part));
             t4 = d_div (d_mul (POW2_d (D_drv_d part)) (dl_length el)) (Finite 2);
             t5 = d_div (d_mul (d_mul (C_drv_d el part) (D_drv_d part)) (POW2_d (Cy_d el part)))
                        (Ky_d el part);
             t6 = d_div (d_mul (C_drv_d el part) (D_drv_d part)) (Ky_d el part)
         in d_add l2 (d_mul (Finite (1/2))
                        (d_add (d_sub (d_add (d_add (d_add t1 t2) t3) t4) t5) t6)))
      else
        d_add l2 (d_mul (d_mul (Finite (1/2)) (POW2_d (D_drv_d part))) (dl_length el)))"

definition z_new_d :: "ThickCombinedFunctionDipoleData_d \<Rightarrow> 'a LocalParticle_d_scheme \<Rightarrow> dbl" where
  "z_new_d el part =
     d_sub (d_mul (dl_length el) (beti_d part)) (d_div (length_path_d el part) (bet_d part))"

definition ThickCombinedFunctionDipole_track_local_particle_d ::
  "ThickCombinedFunctionDipoleData_d \<Rightarrow> 'a LocalParticle_d_scheme \<Rightarrow> 'a LocalParticle_d_scheme" where
  "ThickCombinedFunctionDipole_track_local_particle_d el part =
     part\<lparr>d_x := x_new_d el part,
          d_px := px_new_d el part,
          d_y := y_new_d el part,
          d_py := py_new_d el part,
          d_zeta := d_add (d_zeta part) (d_mul (z_new_d el part) (d_beta0 part)),
          d_s := d_add (d_s part) (dl_length el)\<rparr>"

section \<open>Concrete inputs\<close>

text \<open>
  \<open>el_example\<close> and \<open>particle_example\<close> are the element and the particle of the spec's
  end-to-end scenario 1. \<open>particle_offmom\<close> is an off-momentum particle whose fields are
  consistent with each other: for \<open>beta0 = 3/5\<close> and \<open>delta = -4/9\<close> the energy deviation is
  \<open>ptau = -2/9\<close> and the velocity ratio is \<open>rvv = 25/39\<close>.
\<close>

definition el_example :: ThickCombinedFunctionDipoleData where
  "el_example = \<lparr>el_length = 2, el_k1 = 0, el_k0 = 1/50, el_h = 1/50\<rparr>"

definition particle_example :: LocalParticle where
  "particle_example = \<lparr>p_x = 1/1000, p_px = 0, p_y = 1/2000, p_py = 0, p_zeta = 0, p_s = 0,
     p_delta = 0, p_ptau = 0, p_beta0 = 1, p_rvv = 1, p_state = 1, p_at_turn = 5\<rparr>"

definition particle_offmom :: LocalParticle where
  "particle_offmom = \<lparr>p_x = 1/1000, p_px = 1/2000, p_y = 1/2000, p_py = 1/4000, p_zeta = 0, p_s = 0,
     p_delta = - 4/9, p_ptau = - 2/9, p_beta0 = 3/5, p_rvv = 25/39, p_state = 1, p_at_turn = 0\<rparr>"

definition el_drift :: ThickCombinedFunctionDipoleData where
  "el_drift = \<lparr>el_length = 2, el_k1 = 0, el_k0 = 0, el_h = 0\<rparr>"


text \<open>
  \<open>el_kick k\<close> is a straight element (\<open>h = 0\<close>) of length 1 with dipole strength
  \<open>k0 = 1\<close> and gradient \<open>k1 = k\<close>, so that \<open>Kx = k\<close> and \<open>Ky = - k\<close> for the on-axis,
  on-momentum particle \<open>particle_onaxis\<close>, and \<open>k0 - h = 1\<close>.
\<close>

definition el_kick :: "real \<Rightarrow> ThickCombinedFunctionDipoleData" where
  "el_kick k = \<lparr>el_length = 1, el_k1 = k, el_k0 = 1, el_h = 0\<rparr>"

definition particle_onaxis :: LocalParticle where
  "particle_onaxis = \<lparr>p_x = 0, p_px = 0, p_y = 0, p_py = 0, p_zeta = 0, p_s = 0,
     p_delta = 0, p_ptau = 0, p_beta0 = 1, p_rvv = 1, p_state = 1, p_at_turn = 0\<rparr>"

text \<open>
  Inputs of the binary64 reading; every field is a binary64 value. \<open>particle_round_d\<close> has
  \<open>px = 29/4096\<close> and \<open>delta = -1/8\<close>, with \<open>ptau = delta\<close> as \<open>beta0 = 1\<close> requires;
  \<open>particle_rest_d\<close> has \<open>beta0 = 0\<close>. \<open>particle_round\<close> is \<open>particle_round_d\<close> over the reals.
\<close>

definition el_drift_d :: ThickCombinedFunctionDipoleData_d where
  "el_drift_d = \<lparr>dl_length = Finite 2, dl_k1 = Finite 0, dl_k0 = Finite 0, dl_h = Finite 0\<rparr>"


definition particle_round_d :: LocalParticle_d where
  "particle_round_d = \<lparr>d_x = Finite 0, d_px = Finite (29/4096), d_y = Finite 0, d_py = Finite 0,
     d_zeta = Finite 0, d_s = Finite 0, d_delta = Finite (- 1/8), d_ptau = Finite (- 1/8),
     d_beta0 = Finite 1, d_rvv = Finite 1, d_state = 1, d_at_turn = 0\<rparr>"


definition particle_round :: LocalParticle where
  "particle_round = \<lparr>p_x = 0, p_px = 29/4096, p_y = 0, p_py = 0, p_zeta = 0, p_s = 0,
     p_delta = - 1/8, p_ptau = - 1/8, p_beta0 = 1, p_rvv = 1, p_state = 1, p_at_turn = 0\<rparr>"

section \<open>Auxiliary facts\<close>

lemmas locals_defs = pt_def beti_def delta_plus_1_def bet_def k0_def k1_def Kx_def Ky_def
  Sx_def Cx_def Sy_def Cy_def xp_def yp_def A_drv_def B_drv_def C_drv_def D_drv_def

lemmas writes_defs = LocalParticle_set_x_def LocalParticle_set_px_def LocalParticle_set_y_def
  LocalParticle_set_py_def LocalParticle_add_to_zeta_def LocalParticle_add_to_s_def

lemma track_record:
  "ThickCombinedFunctionDipole_track_local_particle el part =
     part\<lparr>p_x := x_new el part, p_px := px_new el part, p_y := y_new el part,
          p_py := py_new el part, p_zeta := p_zeta part + z_new el part * p_beta0 part,
          p_s := p_s part + el_length el\<rparr>"
  by (simp add: ThickCombinedFunctionDipole_track_local_particle_def writes_defs)

lemma NONZERO_kdiv: "NONZERO K \<Longrightarrow> kdiv a K = Some (a / K)"
  by (auto simp: NONZERO_def kdiv_def)

lemma NONZERO_kdiv2: "NONZERO K \<Longrightarrow> kdiv a (2 * K) = Some (a / (2 * K))"
  by (auto simp: NONZERO_def kdiv_def)

lemma x_new_checked_eq: "x_new_checked el part = Some (x_new el part)"
  by (simp add: x_new_checked_def x_new_def Let_def NONZERO_kdiv)

lemma length_path_x_checked_eq: "length_path_x_checked el part = Some (length_path_x el part)"
  by (simp add: length_path_x_checked_def length_path_x_def Let_def NONZERO_kdiv NONZERO_kdiv2)

lemma length_path_checked_eq: "length_path_checked el part = Some (length_path el part)"
  by (simp add: length_path_checked_def length_path_def length_path_x_checked_eq Let_def
      NONZERO_kdiv NONZERO_kdiv2)

lemma sum_lessThan_5:
  fixes g :: "nat \<Rightarrow> real"
  shows "(\<Sum>m<5. g m) = g 0 + g 1 + g 2 + g 3 + g 4"
  by (simp add: eval_nat_numeral)

lemma sin_coeff_values:
  "sin_coeff 0 = 0" "sin_coeff 1 = 1" "sin_coeff 2 = 0" "sin_coeff 3 = - 1/6" "sin_coeff 4 = 0"
  by (simp_all add: sin_coeff_def fact_numeral)

lemma length_path_kick_pos:
  assumes "0 < k"
  shows "length_path (el_kick k) particle_onaxis
         = 1 + (1 - cos (sqrt k) * sin (sqrt k) / sqrt k) / (4 * k)"
  using assms
  by (simp add: length_path_def length_path_x_def locals_defs NONZERO_def POW2_def Let_def
      el_kick_def particle_onaxis_def field_simps)

lemma length_path_kick_zero: "length_path (el_kick 0) particle_onaxis = 1"
  by (simp add: length_path_def length_path_x_def locals_defs NONZERO_def POW2_def Let_def
      el_kick_def particle_onaxis_def)

lemma sin_over_bound:
  fixes t :: real assumes "0 < t"
  shows "\<bar>sin t / t - (1 - t^2/6)\<bar> \<le> t^4/120"
proof -
  have "\<bar>sin t - (\<Sum>m<5. sin_coeff m * t ^ m)\<bar> \<le> inverse (fact 5) * \<bar>t\<bar> ^ 5"
    by (rule Maclaurin_sin_bound)
  moreover have "(\<Sum>m<5. sin_coeff m * t ^ m) = t - t^3/6"
    unfolding sum_lessThan_5 sin_coeff_values by simp
  moreover have "inverse (fact 5) * \<bar>t\<bar> ^ 5 = t^5/120"
    using assms by (simp add: fact_numeral field_simps)
  ultimately have b: "\<bar>sin t - (t - t^3/6)\<bar> \<le> t^5/120" by simp
  have "sin t / t - (1 - t^2/6) = (sin t - (t - t^3/6)) / t"
    using assms by (simp add: field_simps power2_eq_square power3_eq_cube)
  then have "\<bar>sin t / t - (1 - t^2/6)\<bar> = \<bar>sin t - (t - t^3/6)\<bar> / t"
    using assms by (simp add: abs_divide del: abs_diff_le_iff)
  also have "\<dots> \<le> (t^5/120) / t"
    by (rule divide_right_mono [OF b]) (use assms in simp)
  also have "\<dots> = t^4/120"
    using assms by (simp add: eval_nat_numeral)
  finally show ?thesis .
qed

lemma length_path_kick_near:
  assumes "0 < k"
  shows "\<bar>length_path (el_kick k) particle_onaxis - 7/6\<bar> \<le> k / 30"
proof -
  define w where "w = sqrt k"
  have w: "0 < w" "w^2 = k" using assms by (simp_all add: w_def)
  have w4: "w^4 = k * k"
    using w(2) by (simp add: eval_nat_numeral)
  have cs: "cos w * sin w / w = sin (2 * w) / (2 * w)"
    by (simp add: sin_double)
  have "\<bar>sin (2 * w) / (2 * w) - (1 - (2 * w)^2/6)\<bar> \<le> (2 * w)^4/120"
    using w(1) by (intro sin_over_bound) simp
  then have q: "\<bar>sin (2 * w) / (2 * w) - (1 - 2 * k / 3)\<bar> \<le> 2 * (k * k) / 15"
    using w(2) w4 by (simp add: power_mult_distrib)
  have "length_path (el_kick k) particle_onaxis - 7/6
        = ((1 - 2 * k / 3) - sin (2 * w) / (2 * w)) / (4 * k)"
    unfolding length_path_kick_pos [OF assms] w_def [symmetric] cs
    using assms by (simp add: field_simps)
  then have "\<bar>length_path (el_kick k) particle_onaxis - 7/6\<bar>
        = \<bar>sin (2 * w) / (2 * w) - (1 - 2 * k / 3)\<bar> / (4 * k)"
    using assms by (simp add: abs_divide abs_minus_commute del: abs_diff_le_iff)
  also have "\<dots> \<le> (2 * (k * k) / 15) / (4 * k)"
    by (rule divide_right_mono [OF q]) (use assms in simp)
  also have "\<dots> = k / 30"
    using assms by simp
  finally show ?thesis .
qed

lemma length_path_kick_right_limit:
  "((\<lambda>k. length_path (el_kick k) particle_onaxis) \<longlongrightarrow> 7/6) (at_right 0)"
proof -
  have g: "((\<lambda>k::real. k / 30) \<longlongrightarrow> 0) (at_right 0)"
    by (rule tendsto_eq_intros tendsto_ident_at | simp)+
  have ev: "eventually (\<lambda>k. norm (length_path (el_kick k) particle_onaxis - 7/6)
                              \<le> norm (k / 30) * 1) (at_right 0)"
  proof (rule eventually_at_rightI [of 0 1])
    fix k :: real assume "k \<in> {0<..<1}"
    then have "0 < k" by simp
    then show "norm (length_path (el_kick k) particle_onaxis - 7/6) \<le> norm (k / 30) * 1"
      using length_path_kick_near [of k] by simp
  qed simp
  have "((\<lambda>k. length_path (el_kick k) particle_onaxis - 7/6) \<longlongrightarrow> 0) (at_right 0)"
    by (rule tendsto_0_le [OF g ev])
  then show ?thesis
    by (simp only: LIM_zero_iff)
qed

lemma zeta_kick:
  "p_zeta (ThickCombinedFunctionDipole_track_local_particle (el_kick k) particle_onaxis)
     = 1 - length_path (el_kick k) particle_onaxis"
  by (simp add: track_record z_new_def beti_def bet_def delta_plus_1_def pt_def
      el_kick_def particle_onaxis_def)

lemma ulp_exp_eval:
  assumes "2 powr (of_int k) \<le> \<bar>x\<bar>" and "\<bar>x\<bar> < 2 powr (of_int k + 1)" and "- 1022 \<le> k"
  shows "ulp_exp x = k - 52"
proof -
  have "0 < \<bar>x\<bar>" using assms(1) by (smt (verit) powr_gt_zero)
  then have "\<lfloor>log 2 \<bar>x\<bar>\<rfloor> = k"
    using assms(1,2) by (simp add: floor_log_eq_powr_iff)
  then show ?thesis using assms(3) by (simp add: ulp_exp_def)
qed

lemma RN_eval:
  assumes "2 powr (of_int k) \<le> \<bar>x\<bar>" and "\<bar>x\<bar> < 2 powr (of_int k + 1)" and "- 1022 \<le> k"
    and "r = of_int (rhe (x / 2 powr (of_int (k - 52)))) * 2 powr (of_int (k - 52))"
    and "\<bar>r\<bar> \<le> DBL_MAX"
  shows "RN x = Finite r"
proof -
  have "x \<noteq> 0" using assms(1) by (smt (verit) powr_gt_zero)
  then show ?thesis
    using assms(4,5) by (simp add: RN_def ulp_exp_eval [OF assms(1,2,3)] Let_def)
qed

lemma RN_0: "RN 0 = Finite 0"
  by (simp add: RN_def)


lemma RN_dp1: "RN (7/8) = Finite (7/8)"
  by (rule RN_eval [where k = "- 1"]) (simp_all add: rhe_def DBL_MAX_def Let_def powr_minus_divide)

lemma RN_xp: "RN (29/3584) = Finite (4664442471205157 / 2 ^ 59)"
  by (rule RN_eval [where k = "- 7"]) (simp_all add: rhe_def DBL_MAX_def Let_def powr_minus_divide)

lemma RN_xp_again: "RN (4664442471205157 / 2 ^ 59) = Finite (4664442471205157 / 2 ^ 59)"
  by (rule RN_eval [where k = "- 7"]) (simp_all add: rhe_def DBL_MAX_def Let_def powr_minus_divide)

lemma RN_px: "RN (4664442471205157 / 2 ^ 59 * (7/8)) = Finite (8162774324609025 / 2 ^ 60)"
  by (rule RN_eval [where k = "- 8"]) (simp_all add: rhe_def DBL_MAX_def Let_def powr_minus_divide)

lemma particle_round_fields:
  "d_x particle_round_d = Finite 0" "d_px particle_round_d = Finite (29/4096)"
  "d_delta particle_round_d = Finite (- 1/8)"
  by (simp_all add: particle_round_d_def)

lemma dp1_round: "delta_plus_1_d particle_round_d = Finite (7/8)"
  by (simp add: delta_plus_1_d_def particle_round_fields RN_dp1)


lemma px_round:
  assumes "dl_k0 el = Finite 0" "dl_k1 el = Finite 0" "dl_h el = Finite 0" "dl_length el = Finite L"
  shows "px_new_d el particle_round_d = Finite (8162774324609025 / 2 ^ 60)"
proof -
  have dp1: "delta_plus_1_d particle_round_d = Finite (7/8)"
    by (simp add: delta_plus_1_d_def particle_round_fields RN_dp1)
  have k: "k0_d el particle_round_d = Finite 0" "k1_d el particle_round_d = Finite 0"
    using assms by (simp_all add: k0_d_def k1_d_def dp1 RN_0)
  have K: "Kx_d el particle_round_d = Finite 0"
    using assms by (simp add: Kx_d_def k RN_0)
  have SC: "Sx_d el particle_round_d = Finite L" "Cx_d el particle_round_d = Finite 1"
    using assms by (simp_all add: Sx_d_def Cx_d_def K)
  have A: "A_drv_d el particle_round_d = Finite 0"
    using assms by (simp add: A_drv_d_def K k d_sub_def RN_0 particle_round_fields)
  have B: "B_drv_d particle_round_d = Finite (4664442471205157 / 2 ^ 59)"
    using RN_xp by (simp add: B_drv_d_def xp_d_def dp1 particle_round_fields)
  show ?thesis
    using RN_px RN_xp_again by (simp add: px_new_d_def A B SC dp1 RN_0)
qed



section \<open>The transverse map\<close>

text \<open>
  C1. For every input, the map computes \<open>k0_eff = k0 / delta_plus_1\<close>,
  \<open>k1_eff = k1 / delta_plus_1\<close>, \<open>Kx = k0_eff * h + k1_eff\<close>, \<open>Ky = - k1_eff\<close>, takes per
  axis the sine branch when \<open>K > 0\<close>, the hyperbolic branch when \<open>K < 0\<close> and \<open>S = length\<close>,
  \<open>C = 1\<close> when \<open>K = 0\<close>, and writes \<open>x\<close>, \<open>y\<close>, \<open>px\<close>, \<open>py\<close> as the spec's step 6
  gives them. The formulas hold whether or not \<open>delta_plus_1\<close> is zero.
\<close>

theorem transport_map_formulas:
  "let dp1 = p_delta part + 1;
       k0_eff = el_k0 el / dp1;
       k1_eff = el_k1 el / dp1;
       h = el_h el;
       L = el_length el;
       KX = k0_eff * h + k1_eff;
       KY = - k1_eff;
       SX = (if KX > 0 then sin (sqrt KX * L) / sqrt KX
             else if KX < 0 then sinh (sqrt (- KX) * L) / sqrt (- KX) else L);
       CX = (if KX > 0 then cos (sqrt KX * L)
             else if KX < 0 then cosh (sqrt (- KX) * L) else 1);
       SY = (if KY > 0 then sin (sqrt KY * L) / sqrt KY
             else if KY < 0 then sinh (sqrt (- KY) * L) / sqrt (- KY) else L);
       CY = (if KY > 0 then cos (sqrt KY * L)
             else if KY < 0 then cosh (sqrt (- KY) * L) else 1);
       A = - KX * p_x part - k0_eff + h;
       B = p_px part / dp1;
       C = - KY * p_y part;
       D = p_py part / dp1;
       part' = ThickCombinedFunctionDipole_track_local_particle el part
   in k0 el part = k0_eff \<and> k1 el part = k1_eff \<and> Kx el part = KX \<and> Ky el part = KY \<and>
      Sx el part = SX \<and> Cx el part = CX \<and> Sy el part = SY \<and> Cy el part = CY \<and>
      A_drv el part = A \<and> B_drv part = B \<and> C_drv el part = C \<and> D_drv part = D \<and>
      p_x part' = p_x part * CX + (p_px part / dp1) * SX
                  + (if KX \<noteq> 0 then (k0_eff - h) * (CX - 1) / KX else - ((k0_eff - h) * L\<^sup>2 / 2)) \<and>
      p_y part' = p_y part * CY + (p_py part / dp1) * SY \<and>
      p_px part' = (A * SX + B * CX) * dp1 \<and>
      p_py part' = (C * SY + D * CY) * dp1"
  unfolding Let_def track_record
  apply (intro conjI)
  apply (simp_all add: locals_defs Let_def x_new_def y_new_def px_new_def py_new_def NONZERO_def POW2_def power2_eq_square)
  done

section \<open>The longitudinal map\<close>

text \<open>
  C2. For every input, \<open>z_ = length * beti - length_ / bet\<close>, where \<open>length_\<close> is
  \<open>length\<close> plus the horizontal curvature term, the horizontal second-order cross term and
  the vertical one, each with its branch on \<open>K \<noteq> 0\<close>; \<open>zeta\<close> is incremented by
  \<open>z_ * beta0\<close> and \<open>s\<close> by the design length.
\<close>

theorem longitudinal_update:
  "let dp1 = p_delta part + 1;
       k0_eff = el_k0 el / dp1;
       h = el_h el;
       L = el_length el;
       KX = Kx el part; KY = Ky el part;
       SX = Sx el part; CX = Cx el part; SY = Sy el part; CY = Cy el part;
       x = p_x part;
       A = A_drv el part; B = B_drv part; C = C_drv el part; D = D_drv part;
       curv_x = (if KX \<noteq> 0
                 then - (h * ((CX - 1) * B + SX * A + L * (k0_eff - h)) / KX)
                 else h * L * (3 * L * B + 6 * x - (k0_eff - h) * L\<^sup>2) / 6);
       cross_x = (if KX \<noteq> 0
                  then 0.5 * (- A\<^sup>2 * CX * SX / (2 * KX) + B\<^sup>2 * CX * SX / 2
                              + A\<^sup>2 * L / (2 * KX) + B\<^sup>2 * L / 2
                              - A * B * CX\<^sup>2 / KX + A * B / KX)
                  else 0.5 * B\<^sup>2 * L);
       cross_y = (if KY \<noteq> 0
                  then 0.5 * (- C\<^sup>2 * CY * SY / (2 * KY) + D\<^sup>2 * CY * SY / 2
                              + C\<^sup>2 * L / (2 * KY) + D\<^sup>2 * L / 2
                              - C * D * CY\<^sup>2 / KY + C * D / KY)
                  else 0.5 * D\<^sup>2 * L);
       length_tot = L + curv_x + cross_x + cross_y;
       z = L * beti part - length_tot / bet part;
       part' = ThickCombinedFunctionDipole_track_local_particle el part
   in length_path el part = length_tot \<and>
      z_new el part = z \<and>
      p_zeta part' = p_zeta part + z * p_beta0 part \<and>
      p_s part' = p_s part + L"
  unfolding Let_def track_record
  apply (intro conjI)
  apply (simp_all add: z_new_def length_path_def length_path_x_def Let_def NONZERO_def POW2_def power2_eq_square k0_def delta_plus_1_def B_drv_def)
  done

text \<open>
  C4 (amended). The quantity \<open>bet\<close> of the longitudinal update is
  \<open>delta_plus_1 / (beti + pt)\<close> where \<open>pt\<close> is the particle's field \<open>ptau\<close>, read by
  \<^verbatim>\<open>LocalParticle_get_ptau\<close>, and \<open>delta_plus_1\<close> is the field \<open>delta\<close> plus one:
  \<open>bet = (delta + 1) / (beti + ptau)\<close>.
\<close>

theorem bet_reads_ptau:
  "bet part = (p_delta part + 1) / (1 / (p_rvv part * p_beta0 part) + p_ptau part) \<and>
   z_new el part = el_length el * (1 / (p_rvv part * p_beta0 part)) - length_path el part / bet part"
  by (simp add: bet_def beti_def delta_plus_1_def pt_def z_new_def)

text \<open>
  C4 as stated, with \<open>pt\<close> equal to the particle's \<open>delta\<close>, fails at
  \<open>particle_offmom\<close>: the source gives \<open>bet = 25/107\<close>, the claim \<open>25/97\<close>.
\<close>

theorem bet_not_from_delta:
  "bet particle_offmom \<noteq> (p_delta particle_offmom + 1) / (beti particle_offmom + p_delta particle_offmom)"
  by (simp add: bet_def beti_def delta_plus_1_def pt_def particle_offmom_def)

section \<open>Limits of the element parameters\<close>

text \<open>
  C5 (amended). With \<open>k0 = k1 = h = 0\<close> and \<open>delta_plus_1\<close> nonzero the map evaluates
  \<open>x + (px / delta_plus_1) * length\<close>, \<open>y + (py / delta_plus_1) * length\<close>,
  \<open>(px / delta_plus_1) * delta_plus_1\<close>, \<open>(py / delta_plus_1) * delta_plus_1\<close> and the path
  length \<open>length + 0.5 * xp\<^sup>2 * length + 0.5 * yp\<^sup>2 * length\<close>. Over the reals the two momenta
  are \<open>px\<close> and \<open>py\<close> and the path length is \<open>length + 0.5 * (xp\<^sup>2 + yp\<^sup>2) * length\<close>: the map
  is exactly a drift. In binary64 the quotient and the product are each rounded.
\<close>

theorem drift_limit:
  assumes "el_k0 el = 0" and "el_k1 el = 0" and "el_h el = 0" and "p_delta part + 1 \<noteq> 0"
  shows "let dp1 = p_delta part + 1;
             L = el_length el;
             part' = ThickCombinedFunctionDipole_track_local_particle el part
         in p_x part' = p_x part + (p_px part / dp1) * L \<and>
            p_y part' = p_y part + (p_py part / dp1) * L \<and>
            p_px part' = (p_px part / dp1) * dp1 \<and>
            p_py part' = (p_py part / dp1) * dp1 \<and>
            (p_px part / dp1) * dp1 = p_px part \<and>
            (p_py part / dp1) * dp1 = p_py part \<and>
            length_path el part = L + 0.5 * (p_px part / dp1)\<^sup>2 * L + 0.5 * (p_py part / dp1)\<^sup>2 * L \<and>
            length_path el part = L + 0.5 * ((p_px part / dp1)\<^sup>2 + (p_py part / dp1)\<^sup>2) * L"
proof -
  have K: "k0 el part = 0" "Kx el part = 0" "Ky el part = 0"
    using assms by (simp_all add: k0_def k1_def Kx_def Ky_def)
  have SC: "Sx el part = el_length el" "Cx el part = 1" "Sy el part = el_length el" "Cy el part = 1"
    by (simp_all add: Sx_def Cx_def Sy_def Cy_def K)
  have AC: "A_drv el part = 0" "C_drv el part = 0"
    using assms by (simp_all add: A_drv_def C_drv_def K)
  have x: "x_new el part = p_x part + xp part * el_length el"
    using assms by (simp add: x_new_def K SC NONZERO_def)
  have y: "y_new el part = p_y part + yp part * el_length el"
    by (simp add: y_new_def SC)
  have px: "px_new el part = xp part * delta_plus_1 part"
    by (simp add: px_new_def AC SC B_drv_def)
  have py: "py_new el part = yp part * delta_plus_1 part"
    by (simp add: py_new_def AC SC D_drv_def)
  have lp: "length_path el part =
      el_length el + 0.5 * (xp part)\<^sup>2 * el_length el + 0.5 * (yp part)\<^sup>2 * el_length el"
    using assms
    by (simp add: length_path_def length_path_x_def K NONZERO_def POW2_def B_drv_def D_drv_def
        power2_eq_square)
  have lp': "length_path el part =
      el_length el + 0.5 * ((xp part)\<^sup>2 + (yp part)\<^sup>2) * el_length el"
    unfolding lp by (simp only: distrib_left distrib_right add.assoc)
  have c: "(p_px part / (p_delta part + 1)) * (p_delta part + 1) = p_px part"
          "(p_py part / (p_delta part + 1)) * (p_delta part + 1) = p_py part"
    using assms(4) by simp_all
  show ?thesis
    unfolding Let_def track_record
    using x y px py lp lp' c by (simp add: xp_def yp_def delta_plus_1_def)
qed

theorem drift_limit_witness:
  "el_k0 el_drift = 0 \<and> el_k1 el_drift = 0 \<and> el_h el_drift = 0 \<and>
   p_delta particle_round + 1 \<noteq> 0 \<and>
   p_x (ThickCombinedFunctionDipole_track_local_particle el_drift particle_round) = 29/1792 \<and>
   p_y (ThickCombinedFunctionDipole_track_local_particle el_drift particle_round) = 0 \<and>
   p_px (ThickCombinedFunctionDipole_track_local_particle el_drift particle_round)
     = (29/4096 / (7/8)) * (7/8) \<and>
   p_py (ThickCombinedFunctionDipole_track_local_particle el_drift particle_round) = 0 \<and>
   length_path el_drift particle_round = 2 + (29/3584)\<^sup>2"
  using drift_limit [of el_drift particle_round]
  by (simp add: el_drift_def particle_round_def Let_def power2_eq_square)

text \<open>
  C5 as stated, with the momenta unchanged, fails in binary64: for the drift element of
  length 2 and the particle with \<open>px = 29/4096\<close>, \<open>delta = -1/8\<close>, the quotient
  \<open>px / (7/8)\<close> rounds to \<open>4664442471205157 / 2\<^sup>5\<^sup>9\<close> and its product with \<open>7/8\<close> to
  \<open>px + 2\<^sup>-\<^sup>6\<^sup>0\<close>, one unit in the last place above \<open>px\<close>.
\<close>

theorem drift_px_not_unchanged:
  "dl_k0 el_drift_d = Finite 0 \<and> dl_k1 el_drift_d = Finite 0 \<and> dl_h el_drift_d = Finite 0 \<and>
   delta_plus_1_d particle_round_d = Finite (7/8) \<and>
   d_px (ThickCombinedFunctionDipole_track_local_particle_d el_drift_d particle_round_d)
     = Finite (29/4096 + 1 / 2 ^ 60) \<and>
   d_px (ThickCombinedFunctionDipole_track_local_particle_d el_drift_d particle_round_d)
     \<noteq> d_px particle_round_d"
  using px_round [of el_drift_d 2] dp1_round
  by (simp add: ThickCombinedFunctionDipole_track_local_particle_d_def el_drift_d_def
      particle_round_fields)




section \<open>The branch \<open>Kx = 0\<close> against the limit \<open>Kx \<rightarrow> 0\<close>\<close>

text \<open>
  C3. Continuity of the outputs in \<open>Kx\<close> at 0, with the second-order cross term of the
  branch \<open>Kx \<noteq> 0\<close> tending to the \<open>0.5 * B\<^sup>2 * length\<close> of the branch \<open>Kx = 0\<close>, does not
  hold on the source when \<open>k0 / delta_plus_1 \<noteq> h\<close>. For the element \<open>el_kick k\<close> and the
  on-axis particle, \<open>Kx = k\<close>: at \<open>k = 0\<close> the path length is 1 and \<open>zeta\<close> stays 0, while
  for \<open>k\<close> tending to 0 from above the path length tends to \<open>7/6\<close> and the new \<open>zeta\<close> to
  \<open>- 1/6\<close>; the new \<open>zeta\<close> is not continuous in \<open>k1\<close> there.
\<close>

theorem path_length_jump_at_Kx_zero:
  "Kx (el_kick 0) particle_onaxis = 0 \<and>
   length_path (el_kick 0) particle_onaxis = 1 \<and>
   p_zeta (ThickCombinedFunctionDipole_track_local_particle (el_kick 0) particle_onaxis) = 0 \<and>
   ((\<lambda>k. length_path (el_kick k) particle_onaxis) \<longlongrightarrow> 7/6) (at_right 0) \<and>
   ((\<lambda>k. p_zeta (ThickCombinedFunctionDipole_track_local_particle (el_kick k) particle_onaxis))
       \<longlongrightarrow> - 1/6) (at_right 0) \<and>
   \<not> isCont (\<lambda>k. p_zeta (ThickCombinedFunctionDipole_track_local_particle (el_kick k) particle_onaxis)) 0"
proof -
  let ?z = "\<lambda>k. p_zeta (ThickCombinedFunctionDipole_track_local_particle (el_kick k) particle_onaxis)"
  have K0: "Kx (el_kick 0) particle_onaxis = 0"
    by (simp add: Kx_def k0_def k1_def el_kick_def)
  have z0: "?z 0 = 0"
    by (simp add: zeta_kick length_path_kick_zero)
  have "((\<lambda>k. 1 - length_path (el_kick k) particle_onaxis) \<longlongrightarrow> 1 - 7/6) (at_right 0)"
    by (intro tendsto_diff tendsto_const length_path_kick_right_limit)
  then have zl: "(?z \<longlongrightarrow> - 1/6) (at_right 0)"
    by (simp add: zeta_kick)
  have nc: "\<not> isCont ?z 0"
  proof
    assume "isCont ?z 0"
    then have "(?z \<longlongrightarrow> ?z 0) (at 0)"
      by (simp add: isCont_def)
    then have "(?z \<longlongrightarrow> ?z 0) (at_right 0)"
      by (rule filterlim_mono [OF _ order_refl at_le]) simp
    then have "?z 0 = - 1/6"
      by (rule tendsto_unique [OF trivial_limit_at_right_real _ zl])
    then show False using z0 by simp
  qed
  show ?thesis
    using K0 length_path_kick_zero z0 length_path_kick_right_limit zl nc by blast
qed

section \<open>Frame and independence\<close>

text \<open>
  C6. One invocation writes only \<open>x\<close>, \<open>px\<close>, \<open>y\<close>, \<open>py\<close> (set), \<open>zeta\<close> and \<open>s\<close>
  (incremented). The fields \<open>state\<close>, \<open>at_turn\<close>, \<open>delta\<close>, \<open>ptau\<close>, \<open>beta0\<close>, \<open>rvv\<close> and
  every further field of the particle are unchanged.
\<close>

theorem frame_condition:
  "let part' = ThickCombinedFunctionDipole_track_local_particle el part
   in part' = part\<lparr>p_x := p_x part', p_px := p_px part', p_y := p_y part', p_py := p_py part',
                     p_zeta := p_zeta part + z_new el part * p_beta0 part,
                     p_s := p_s part + el_length el\<rparr> \<and>
      p_state part' = p_state part \<and> p_at_turn part' = p_at_turn part \<and>
      p_delta part' = p_delta part \<and> p_ptau part' = p_ptau part \<and>
      p_beta0 part' = p_beta0 part \<and> p_rvv part' = p_rvv part \<and>
      LocalParticle.more part' = LocalParticle.more part"
  unfolding Let_def track_record by simp

text \<open>
  C10. Two particles that agree on \<open>x\<close>, \<open>px\<close>, \<open>delta\<close>, \<open>ptau\<close>, \<open>beta0\<close>, \<open>rvv\<close> get the
  same new \<open>x\<close> and \<open>px\<close> from the same element, whatever their \<open>y\<close> and \<open>py\<close>; two
  particles that agree on \<open>y\<close>, \<open>py\<close> and the same further fields get the same new \<open>y\<close>
  and \<open>py\<close>, whatever their \<open>x\<close> and \<open>px\<close>.
\<close>

theorem transverse_decoupling:
  "(p_x p1 = p_x p2 \<and> p_px p1 = p_px p2 \<and> p_delta p1 = p_delta p2 \<and> p_ptau p1 = p_ptau p2 \<and>
    p_beta0 p1 = p_beta0 p2 \<and> p_rvv p1 = p_rvv p2 \<longrightarrow>
      p_x (ThickCombinedFunctionDipole_track_local_particle el p1) =
        p_x (ThickCombinedFunctionDipole_track_local_particle el p2) \<and>
      p_px (ThickCombinedFunctionDipole_track_local_particle el p1) =
        p_px (ThickCombinedFunctionDipole_track_local_particle el p2)) \<and>
   (p_y p1 = p_y p2 \<and> p_py p1 = p_py p2 \<and> p_delta p1 = p_delta p2 \<and> p_ptau p1 = p_ptau p2 \<and>
    p_beta0 p1 = p_beta0 p2 \<and> p_rvv p1 = p_rvv p2 \<longrightarrow>
      p_y (ThickCombinedFunctionDipole_track_local_particle el p1) =
        p_y (ThickCombinedFunctionDipole_track_local_particle el p2) \<and>
      p_py (ThickCombinedFunctionDipole_track_local_particle el p1) =
        p_py (ThickCombinedFunctionDipole_track_local_particle el p2))"
  unfolding track_record
  by (simp add: locals_defs Let_def x_new_def y_new_def px_new_def py_new_def)

theorem transverse_decoupling_witness:
  "p_x (ThickCombinedFunctionDipole_track_local_particle el_example particle_offmom) =
     p_x (ThickCombinedFunctionDipole_track_local_particle el_example (particle_offmom\<lparr>p_y := 3, p_py := 1/7\<rparr>)) \<and>
   p_px (ThickCombinedFunctionDipole_track_local_particle el_example particle_offmom) =
     p_px (ThickCombinedFunctionDipole_track_local_particle el_example (particle_offmom\<lparr>p_y := 3, p_py := 1/7\<rparr>)) \<and>
   p_y (ThickCombinedFunctionDipole_track_local_particle el_example particle_offmom) =
     p_y (ThickCombinedFunctionDipole_track_local_particle el_example (particle_offmom\<lparr>p_x := 3, p_px := 1/7\<rparr>)) \<and>
   p_py (ThickCombinedFunctionDipole_track_local_particle el_example particle_offmom) =
     p_py (ThickCombinedFunctionDipole_track_local_particle el_example (particle_offmom\<lparr>p_x := 3, p_px := 1/7\<rparr>))"
  using transverse_decoupling [of particle_offmom "particle_offmom\<lparr>p_y := 3, p_py := 1/7\<rparr>" el_example]
    transverse_decoupling [of particle_offmom "particle_offmom\<lparr>p_x := 3, p_px := 1/7\<rparr>" el_example]
  by simp

section \<open>Divisions by \<open>Kx\<close> and \<open>Ky\<close>\<close>

text \<open>
  C7. \<^verbatim>\<open>NONZERO(K)\<close> is \<open>K < 0 \<or> K > 0\<close>, with no tolerance, which on the reals is
  \<open>K \<noteq> 0\<close>; and for every input the map with its divisions by \<open>Kx\<close> and \<open>Ky\<close> checked
  has a value, the value of the map: no division by a zero \<open>Kx\<close> or \<open>Ky\<close> is evaluated.
\<close>

theorem zero_strength_branch_safety:
  "NONZERO K = (K < 0 \<or> K > 0) \<and>
   NONZERO K = (K \<noteq> 0) \<and>
   track_local_particle_checked el part =
     Some (ThickCombinedFunctionDipole_track_local_particle el part)"
  by (auto simp add: NONZERO_def track_local_particle_checked_def
      ThickCombinedFunctionDipole_track_local_particle_def x_new_checked_eq
      length_path_checked_eq z_new_def Let_def)

section \<open>The tracking-mode assertion\<close>

text \<open>
  C8. For every particle: if \<open>at_turn\<close> is negative, \<^verbatim>\<open>assert_tracking\<close> returns 0 and
  the particle is the one \<^verbatim>\<open>LocalParticle_kill_particle\<close> leaves for the supplied kill
  code; otherwise (\<open>at_turn \<ge> 0\<close>, 0 included) it returns 1 and the particle is unchanged.
\<close>

theorem assert_tracking_contract:
  "(sint (p_at_turn part) < 0 \<longrightarrow>
      assert_tracking kill_particle part kill_state = (0, kill_particle part kill_state)) \<and>
   (0 \<le> sint (p_at_turn part) \<longrightarrow>
      assert_tracking kill_particle part kill_state = (1, part))"
  by (simp add: assert_tracking_def)

theorem assert_tracking_contract_witness:
  "sint (p_at_turn (particle_example\<lparr>p_at_turn := - 1\<rparr>)) < 0 \<and>
   assert_tracking LocalParticle_kill_particle (particle_example\<lparr>p_at_turn := - 1\<rparr>) 7
     = (0, particle_example\<lparr>p_at_turn := - 1, p_state := 7\<rparr>) \<and>
   0 \<le> sint (p_at_turn particle_example) \<and>
   assert_tracking LocalParticle_kill_particle particle_example 7 = (1, particle_example)"
  using assert_tracking_contract [of "particle_example\<lparr>p_at_turn := - 1\<rparr>" LocalParticle_kill_particle 7]
    assert_tracking_contract [of particle_example LocalParticle_kill_particle 7]
  by (simp add: particle_example_def LocalParticle_kill_particle_def)

end
